theory Spec2Isabelle
  imports Main "HOL-Library.Char_ord" "HOL-Library.List_Lexorder" "HOL-Library.Multiset"
    "HOL-Library.Monad_Syntax" "HOL-Library.Product_Lexorder"
begin

section \<open>Go strings and paths\<close>

text \<open>
  A Go string is a byte sequence; \<open>string\<close> (a \<open>char list\<close>) is used for it, and the
  order on strings is the byte-wise lexicographic order of Go's \<open><\<close>.
  The functions of this section are the ones of Go's \<open>strings\<close> and \<open>path/filepath\<close>
  packages (Unix flavour) that the repository calls.
\<close>

definition HasPrefix :: "string \<Rightarrow> string \<Rightarrow> bool" where
  "HasPrefix s p = (take (length p) s = p)"




abbreviation sep :: char where
  "sep \<equiv> CHR ''/''"

text \<open>\<open>strings.Split(s, "/")\<close>: the elements between separators (never an empty list).\<close>

fun splitSep :: "string \<Rightarrow> string list" where
  "splitSep [] = [[]]"
| "splitSep (c # cs) =
     (if c = sep then [] # splitSep cs
      else (case splitSep cs of
              [] \<Rightarrow> [[c]]
            | e # es \<Rightarrow> (c # e) # es))"


text \<open>\<open>strings.Join(elems, "/")\<close>.\<close>

fun joinSep :: "string list \<Rightarrow> string" where
  "joinSep [] = []"
| "joinSep [e] = e"
| "joinSep (e # es) = e @ [sep] @ joinSep es"

text \<open>
  \<open>filepath.Clean\<close>. The library scans the path element by element, writing to an
  output buffer: an empty element and \<open>.\<close> are dropped; \<open>..\<close> removes the last element
  written when there is one to backtrack over (\<open>out.w > dotdot\<close>), is appended when the
  path is not rooted, and is dropped at the root; any other element is appended.
  \<open>out\<close> is the list of elements written so far.
\<close>

fun cleanElems :: "bool \<Rightarrow> string list \<Rightarrow> string list \<Rightarrow> string list" where
  "cleanElems rooted out [] = out"
| "cleanElems rooted out (e # es) =
     (if e = [] then cleanElems rooted out es
      else if e = ''.'' then cleanElems rooted out es
      else if e = ''..'' then
        (if out \<noteq> [] \<and> last out \<noteq> ''..'' then cleanElems rooted (butlast out) es
         else if \<not> rooted then cleanElems rooted (out @ [''..'']) es
         else cleanElems rooted out es)
      else cleanElems rooted (out @ [e]) es)"

definition Clean :: "string \<Rightarrow> string" where
  "Clean path =
     (if path = [] then ''.''
      else let rooted = (hd path = sep);
               out = cleanElems rooted [] (splitSep path)
           in if rooted then sep # joinSep out
              else if out = [] then ''.''
              else joinSep out)"

text \<open>\<open>filepath.Base\<close>: the last element, after trailing separators are stripped.\<close>

definition Base :: "string \<Rightarrow> string" where
  "Base path =
     (if path = [] then ''.''
      else let p = rev (dropWhile (\<lambda>c. c = sep) (rev path));
               e = rev (takeWhile (\<lambda>c. c \<noteq> sep) (rev p))
           in if e = [] then [sep] else e)"


text \<open>\<open>filepath.Join\<close> of two elements: empty elements are ignored, the rest is cleaned.\<close>

definition Join :: "string \<Rightarrow> string \<Rightarrow> string" where
  "Join a b =
     (if a \<noteq> [] then Clean (a @ [sep] @ b)
      else if b \<noteq> [] then Clean b
      else [])"

text \<open>
  \<open>filepath.Abs\<close>: an absolute path is cleaned, a relative one is joined to the working
  directory; \<open>None\<close> when the working directory cannot be read.
\<close>

definition Abs :: "string option \<Rightarrow> string \<Rightarrow> string option" where
  "Abs cwd path =
     (if HasPrefix path [sep] then Some (Clean path)
      else (case cwd of None \<Rightarrow> None | Some wd \<Rightarrow> Some (Join wd path)))"


section \<open>Package state: the persisted share\<close>

text \<open>
  \<open>ShareMode\<close> and \<open>ShareType\<close> are string types in the source, with two named
  constants each; a state document may carry any string there.
\<close>

type_synonym ShareMode = string
type_synonym ShareType = string

definition ModeProtected :: ShareMode where "ModeProtected = ''protected''"
definition ModePublic :: ShareMode where "ModePublic = ''public''"
definition TypeFile :: ShareType where "TypeFile = ''file''"
definition TypeDir :: ShareType where "TypeDir = ''dir''"

text \<open>A \<open>time.Time\<close> is kept as an instant; \<open>0\<close> is the zero time.\<close>

type_synonym time = int

text \<open>
  Struct fields carry a short prefix for their struct (\<open>it\<close> for \<open>ShareItem\<close>,
  \<open>st\<close> for \<open>State\<close>, \<open>ar\<close> for \<open>AccessRecord\<close>), since several structs of the
  source share the field names \<open>Path\<close>, \<open>Name\<close>, \<open>ShareType\<close> and \<open>Size\<close>.
\<close>

record AccessRecord =
  arTime :: time
  arPath :: string
  arStatusCode :: int
  arBytesSent :: int
  arRemoteAddr :: string

record ShareItem =
  itPath :: string
  itName :: string
  itShareType :: ShareType
  itSize :: int

record State =
  stShareID :: string
  stMode :: ShareMode
  stPort :: int
  stItems :: "ShareItem list"
  stIsMulti :: bool
  stPath :: string
  stShareType :: ShareType
  stServerPID :: int
  stTunnelPID :: int
  stUsername :: string
  stPassword :: string
  stStartTime :: time
  stLastAccess :: time
  stRequestCount :: int
  stRecentAccess :: "AccessRecord list"
  stPublicURL :: string

text \<open>The zero value \<open>State{}\<close>.\<close>

definition zeroState :: State where
  "zeroState = \<lparr> stShareID = [], stMode = [], stPort = 0, stItems = [], stIsMulti = False,
     stPath = [], stShareType = [], stServerPID = 0, stTunnelPID = 0, stUsername = [],
     stPassword = [], stStartTime = 0, stLastAccess = 0, stRequestCount = 0,
     stRecentAccess = [], stPublicURL = [] \<rparr>"

subsection \<open>JSON documents\<close>

text \<open>
  The state file is written by \<open>json.MarshalIndent\<close> and read by \<open>json.Unmarshal\<close>.
  A document is modelled as the JSON value it denotes, not as its text: an object is the
  list of its members in order. \<open>JTime\<close> stands for the JSON string that holds a
  timestamp in RFC 3339 form. The encoding of a value as text and back is taken to be
  lossless (it is for valid UTF-8 strings), and member names are matched exactly.
\<close>

datatype json =
    JNull
  | JBool bool
  | JNum int
  | JStr string
  | JTime time
  | JArr "json list"
  | JObj "(string \<times> json) list"

text \<open>
  A member tagged \<open>omitempty\<close> is left out when its value is the empty string or a
  slice of length 0.
\<close>

definition omitempty :: "string \<Rightarrow> json \<Rightarrow> (string \<times> json) list" where
  "omitempty k v = (if v = JStr [] \<or> v = JArr [] then [] else [(k, v)])"

definition marshalItem :: "ShareItem \<Rightarrow> json" where
  "marshalItem it = JObj
     [(''path'', JStr (itPath it)), (''name'', JStr (itName it)),
      (''share_type'', JStr (itShareType it)), (''size'', JNum (itSize it))]"

definition marshalRecord :: "AccessRecord \<Rightarrow> json" where
  "marshalRecord r = JObj
     [(''time'', JTime (arTime r)), (''path'', JStr (arPath r)),
      (''status_code'', JNum (arStatusCode r)), (''bytes_sent'', JNum (arBytesSent r)),
      (''remote_addr'', JStr (arRemoteAddr r))]"

definition marshalState :: "State \<Rightarrow> json" where
  "marshalState s = JObj
     ([(''share_id'', JStr (stShareID s)), (''mode'', JStr (stMode s)),
       (''port'', JNum (stPort s))]
      @ omitempty ''items'' (JArr (map marshalItem (stItems s)))
      @ [(''is_multi'', JBool (stIsMulti s))]
      @ omitempty ''path'' (JStr (stPath s))
      @ omitempty ''share_type'' (JStr (stShareType s))
      @ [(''server_pid'', JNum (stServerPID s)), (''tunnel_pid'', JNum (stTunnelPID s))]
      @ omitempty ''username'' (JStr (stUsername s))
      @ omitempty ''password'' (JStr (stPassword s))
      @ [(''start_time'', JTime (stStartTime s)), (''last_access'', JTime (stLastAccess s)),
         (''request_count'', JNum (stRequestCount s))]
      @ omitempty ''recent_access'' (JArr (map marshalRecord (stRecentAccess s)))
      @ [(''public_url'', JStr (stPublicURL s))])"

text \<open>
  Decoding into a fresh struct: a member that is absent or \<open>null\<close> leaves the zero
  value, a value of the wrong JSON type is an error (\<open>None\<close>), and of two members with
  the same name the later one wins.
\<close>

definition member :: "(string \<times> json) list \<Rightarrow> string \<Rightarrow> json" where
  "member kvs k = (case map_of (rev kvs) k of None \<Rightarrow> JNull | Some v \<Rightarrow> v)"

fun decString :: "json \<Rightarrow> string option" where
  "decString JNull = Some []"
| "decString (JStr s) = Some s"
| "decString _ = None"

fun decInt :: "json \<Rightarrow> int option" where
  "decInt JNull = Some 0"
| "decInt (JNum n) = Some n"
| "decInt _ = None"

fun decBool :: "json \<Rightarrow> bool option" where
  "decBool JNull = Some False"
| "decBool (JBool b) = Some b"
| "decBool _ = None"

fun decTime :: "json \<Rightarrow> time option" where
  "decTime JNull = Some 0"
| "decTime (JTime t) = Some t"
| "decTime _ = None"

fun decAll :: "(json \<Rightarrow> 'a option) \<Rightarrow> json list \<Rightarrow> 'a list option" where
  "decAll d [] = Some []"
| "decAll d (j # js) =
     (case d j of None \<Rightarrow> None
      | Some x \<Rightarrow> (case decAll d js of None \<Rightarrow> None | Some xs \<Rightarrow> Some (x # xs)))"

fun decSlice :: "(json \<Rightarrow> 'a option) \<Rightarrow> json \<Rightarrow> 'a list option" where
  "decSlice d JNull = Some []"
| "decSlice d (JArr js) = decAll d js"
| "decSlice d _ = None"

fun unmarshalItem :: "json \<Rightarrow> ShareItem option" where
  "unmarshalItem JNull = Some \<lparr> itPath = [], itName = [], itShareType = [], itSize = 0 \<rparr>"
| "unmarshalItem (JObj kvs) = do {
     p \<leftarrow> decString (member kvs ''path'');
     n \<leftarrow> decString (member kvs ''name'');
     t \<leftarrow> decString (member kvs ''share_type'');
     z \<leftarrow> decInt (member kvs ''size'');
     Some \<lparr> itPath = p, itName = n, itShareType = t, itSize = z \<rparr> }"
| "unmarshalItem _ = None"

fun unmarshalRecord :: "json \<Rightarrow> AccessRecord option" where
  "unmarshalRecord JNull = Some \<lparr> arTime = 0, arPath = [], arStatusCode = 0,
     arBytesSent = 0, arRemoteAddr = [] \<rparr>"
| "unmarshalRecord (JObj kvs) = do {
     t \<leftarrow> decTime (member kvs ''time'');
     p \<leftarrow> decString (member kvs ''path'');
     c \<leftarrow> decInt (member kvs ''status_code'');
     b \<leftarrow> decInt (member kvs ''bytes_sent'');
     a \<leftarrow> decString (member kvs ''remote_addr'');
     Some \<lparr> arTime = t, arPath = p, arStatusCode = c, arBytesSent = b, arRemoteAddr = a \<rparr> }"
| "unmarshalRecord _ = None"

fun unmarshalState :: "json \<Rightarrow> State option" where
  "unmarshalState JNull = Some zeroState"
| "unmarshalState (JObj kvs) = do {
     shareID \<leftarrow> decString (member kvs ''share_id'');
     mode \<leftarrow> decString (member kvs ''mode'');
     port \<leftarrow> decInt (member kvs ''port'');
     items \<leftarrow> decSlice unmarshalItem (member kvs ''items'');
     isMulti \<leftarrow> decBool (member kvs ''is_multi'');
     path \<leftarrow> decString (member kvs ''path'');
     shareType \<leftarrow> decString (member kvs ''share_type'');
     serverPID \<leftarrow> decInt (member kvs ''server_pid'');
     tunnelPID \<leftarrow> decInt (member kvs ''tunnel_pid'');
     username \<leftarrow> decString (member kvs ''username'');
     password \<leftarrow> decString (member kvs ''password'');
     startTime \<leftarrow> decTime (member kvs ''start_time'');
     lastAccess \<leftarrow> decTime (member kvs ''last_access'');
     requestCount \<leftarrow> decInt (member kvs ''request_count'');
     recentAccess \<leftarrow> decSlice unmarshalRecord (member kvs ''recent_access'');
     publicURL \<leftarrow> decString (member kvs ''public_url'');
     Some \<lparr> stShareID = shareID, stMode = mode, stPort = port, stItems = items,
       stIsMulti = isMulti, stPath = path, stShareType = shareType,
       stServerPID = serverPID, stTunnelPID = tunnelPID, stUsername = username,
       stPassword = password, stStartTime = startTime, stLastAccess = lastAccess,
       stRequestCount = requestCount, stRecentAccess = recentAccess,
       stPublicURL = publicURL \<rparr> }"
| "unmarshalState _ = None"

subsection \<open>The state file\<close>

text \<open>
  What \<open>os.ReadFile\<close> finds at the state path: no file, a file that cannot be read, or
  its bytes; the bytes either are a JSON document or are not.
\<close>

datatype filecontent = Malformed | Doc json

datatype readfile = NotExist | ReadError | Bytes filecontent

datatype error =
    ReadStateError
  | ParseStateError
  | CreateConfigDirError
  | WriteStateError
  | NoPathsProvided
  | InvalidPath string
  | CannotAccess string
  | NameConflict string
  | NoActiveShare
  | NoItems
  | PathNotFound string
  | NameExists string
  | ItemsNotFound
  | CannotRemoveAll
  | GetExecutableError
  | CreateLogFileError
  | StartProcessError
  | RestartFailed error
  | CloudflaredNotFound
  | CreateTunnelLogError
  | StartCloudflaredError
  | SaveTunnelPidError
  | ProcessDiedImmediately string
  | NilPointerPanic
  | OpenStatsError
  | LockStatsError

text \<open>
  \<open>Load\<close>: a missing file is no state and no error; an old-format document (no items,
  but a path) is turned into a one-item state.
\<close>

definition Load :: "readfile \<Rightarrow> error + State option" where
  "Load f =
     (case f of
        NotExist \<Rightarrow> Inr None
      | ReadError \<Rightarrow> Inl ReadStateError
      | Bytes Malformed \<Rightarrow> Inl ParseStateError
      | Bytes (Doc j) \<Rightarrow>
          (case unmarshalState j of
             None \<Rightarrow> Inl ParseStateError
           | Some s \<Rightarrow>
               if length (stItems s) = 0 \<and> stPath s \<noteq> []
               then Inr (Some (s\<lparr> stItems := [\<lparr> itPath = stPath s, itName = Base (stPath s),
                                   itShareType = stShareType s, itSize = 0 \<rparr>],
                                 stIsMulti := False \<rparr>))
               else Inr (Some s)))"

text \<open>
  \<open>Save\<close> first brings the old-format fields of the receiver in line with the item
  list (the receiver is a pointer, so the caller's state changes too), then writes the
  document. The result is the error, if any, the receiver as \<open>Save\<close> leaves it, and the
  state file. \<open>dirOk\<close> and \<open>writeOk\<close> say whether \<open>config.EnsureConfigDir\<close> and
  \<open>os.WriteFile\<close> succeed.
\<close>

definition syncLegacy :: "State \<Rightarrow> State" where
  "syncLegacy s =
     (if length (stItems s) = 1
      then s\<lparr> stPath := itPath (stItems s ! 0), stShareType := itShareType (stItems s ! 0),
              stIsMulti := False \<rparr>
      else if length (stItems s) > 1
      then s\<lparr> stIsMulti := True, stPath := [], stShareType := [] \<rparr>
      else s)"

definition Save :: "bool \<Rightarrow> bool \<Rightarrow> readfile \<Rightarrow> State \<Rightarrow> error option \<times> State \<times> readfile" where
  "Save dirOk writeOk f s =
     (if \<not> dirOk then (Some CreateConfigDirError, s, f)
      else let s' = syncLegacy s
           in if \<not> writeOk then (Some WriteStateError, s', f)
              else (None, s', Bytes (Doc (marshalState s'))))"


section \<open>Package server\<close>

subsection \<open>The file system the server reads\<close>

text \<open>
  \<open>os.Stat\<close> answers that the path does not exist, another error, or the file's
  information; \<open>filepath.EvalSymlinks\<close> and \<open>os.ReadDir\<close> answer \<open>None\<close> on an error.
  A directory entry carries its name, whether it is a directory, and what
  \<open>entry.Info()\<close> gives (size and modification time, \<open>None\<close> on an error).
\<close>

datatype statres = StatNotExist | StatError | StatInfo bool int time

datatype dirent = DirEntry (deName: string) (deIsDir: bool) (deInfo: "(int \<times> time) option")

record filesys =
  fsStat :: "string \<Rightarrow> statres"
  fsEvalSymlinks :: "string \<Rightarrow> string option"
  fsReadDir :: "string \<Rightarrow> dirent list option"
  fsCwd :: "string option"
  fsNow :: time

record FileInfo =
  fiName :: string
  fiSize :: int
  fiModTime :: time
  fiIsDir :: bool
  fiPath :: string

record Server =
  items :: "ShareItem list"
  itemMap :: "string \<rightharpoonup> ShareItem"
  isMulti :: bool
  sharePath :: string
  shareType :: ShareType


subsection \<open>Construction\<close>

text \<open>\<open>buildItemMap\<close>: the loop over the items, \<open>result\<close> being the map built so far.\<close>

fun buildItemMapLoop :: "(string \<rightharpoonup> ShareItem) \<Rightarrow> ShareItem list \<Rightarrow>
    error + (string \<rightharpoonup> ShareItem)" where
  "buildItemMapLoop result [] = Inr result"
| "buildItemMapLoop result (it # its) =
     (case result (itName it) of
        Some _ \<Rightarrow> Inl (NameConflict (itName it))
      | None \<Rightarrow> buildItemMapLoop (result(itName it \<mapsto> it)) its)"

definition buildItemMap :: "ShareItem list \<Rightarrow> error + (string \<rightharpoonup> ShareItem)" where
  "buildItemMap its = buildItemMapLoop Map.empty its"

text \<open>The first loop of \<open>NewServer\<close>: one item per path, or the first error.\<close>

definition mkItem :: "string \<Rightarrow> bool \<Rightarrow> int \<Rightarrow> ShareItem" where
  "mkItem absPath isdir sz =
     (if isdir
      then \<lparr> itPath = absPath, itName = Base absPath, itShareType = TypeDir, itSize = 0 \<rparr>
      else \<lparr> itPath = absPath, itName = Base absPath, itShareType = TypeFile, itSize = sz \<rparr>)"

fun statItems :: "filesys \<Rightarrow> string list \<Rightarrow> error + ShareItem list" where
  "statItems fs [] = Inr []"
| "statItems fs (p # ps) =
     (case Abs (fsCwd fs) p of
        None \<Rightarrow> Inl (InvalidPath p)
      | Some absPath \<Rightarrow>
          (case fsStat fs absPath of
             StatInfo isdir sz mt \<Rightarrow>
               (case statItems fs ps of
                  Inl e \<Rightarrow> Inl e
                | Inr its \<Rightarrow> Inr (mkItem absPath isdir sz # its))
           | _ \<Rightarrow> Inl (CannotAccess p)))"

text \<open>\<open>NewServer\<close> returns the server and the state it has written the items to.\<close>

definition NewServer :: "filesys \<Rightarrow> string list \<Rightarrow> State \<Rightarrow> error + (Server \<times> State)" where
  "NewServer fs paths st =
     (if length paths = 0 then Inl NoPathsProvided
      else case statItems fs paths of
        Inl e \<Rightarrow> Inl e
      | Inr its \<Rightarrow>
          (case buildItemMap its of
             Inl e \<Rightarrow> Inl e
           | Inr m \<Rightarrow>
               if length its = 1
               then Inr (\<lparr> items = its, itemMap = m, isMulti = False,
                           sharePath = itPath (its ! 0), shareType = itShareType (its ! 0) \<rparr>,
                         st\<lparr> stItems := its, stPath := itPath (its ! 0),
                             stShareType := itShareType (its ! 0), stIsMulti := False \<rparr>)
               else Inr (\<lparr> items = its, itemMap = m, isMulti = True,
                           sharePath = [], shareType = [] \<rparr>,
                         st\<lparr> stItems := its, stIsMulti := True \<rparr>)))"

subsection \<open>Listings\<close>

text \<open>The comparison handed to \<open>sort.Slice\<close> in all three listing functions.\<close>

definition fileLess :: "FileInfo \<Rightarrow> FileInfo \<Rightarrow> bool" where
  "fileLess a b = (if fiIsDir a \<noteq> fiIsDir b then fiIsDir a else fiName a < fiName b)"

text \<open>
  \<open>sort.Slice\<close> promises the elements of the slice in an order that agrees with
  \<open>less\<close>, and nothing about elements that \<open>less\<close> does not separate. It is modelled by
  the insertion sort that the library runs on short slices: each element in turn moves
  left past the elements it is less than.
\<close>

fun insertSorted :: "('a \<Rightarrow> 'a \<Rightarrow> bool) \<Rightarrow> 'a \<Rightarrow> 'a list \<Rightarrow> 'a list" where
  "insertSorted lt x [] = [x]"
| "insertSorted lt x (y # ys) =
     (if lt x y then x # y # ys else y # insertSorted lt x ys)"

definition sortSlice :: "('a \<Rightarrow> 'a \<Rightarrow> bool) \<Rightarrow> 'a list \<Rightarrow> 'a list" where
  "sortSlice lt xs = foldl (\<lambda>done x. insertSorted lt x done) [] xs"






subsection \<open>Request handlers\<close>







subsection \<open>Access statistics and middleware\<close>












section \<open>Processes: package tunnel and the commands of package main\<close>

text \<open>
  The machine as the commands see it. The state file and whether the configuration
  directory can be made and the file written; the file system; the process table
  (\<open>wFindOk\<close>: \<open>os.FindProcess\<close> succeeds; \<open>wAlive\<close>: signal 0 is delivered;
  \<open>wExitsOnTerm\<close>: the process exits on SIGTERM; \<open>wWaitDone\<close>: \<open>process.Wait()\<close>
  returns before the timer of the stop fires); what starting a command gives (\<open>wStart\<close>:
  the child's pid and whether it is still alive after the settling delay, \<open>None\<close> when
  \<open>cmd.Start\<close> fails); the pid files; and the trace of signals sent and commands started.
\<close>

datatype signal = SIGTERM | SIGKILL

datatype command = ServerCmd "string list" int string string | TunnelCmd string

datatype event = Signalled int signal | Started command

datatype pidfile = NoPidFile | BadPidFile | PidFile int

record world =
  wStateFile :: readfile
  wDirOk :: bool
  wWriteOk :: bool
  wFs :: filesys
  wConfigDir :: string
  wFindOk :: "int \<Rightarrow> bool"
  wAlive :: "int \<Rightarrow> bool"
  wExitsOnTerm :: "int \<Rightarrow> bool"
  wWaitDone :: "int \<Rightarrow> bool"
  wExeOk :: bool
  wLogOk :: bool
  wLookPathOk :: bool
  wStart :: "command \<Rightarrow> (int \<times> bool) option"
  wPidWriteOk :: bool
  wServerPidFile :: pidfile
  wTunnelPidFile :: pidfile
  wTrace :: "event list"

definition sendSignal :: "world \<Rightarrow> int \<Rightarrow> signal \<Rightarrow> world" where
  "sendSignal w pid sg =
     w\<lparr> wTrace := wTrace w @ [Signalled pid sg],
        wAlive := (wAlive w)(pid := (case sg of
                                       SIGKILL \<Rightarrow> False
                                     | SIGTERM \<Rightarrow> wAlive w pid \<and> \<not> wExitsOnTerm w pid)) \<rparr>"

definition isProcessRunning :: "world \<Rightarrow> int \<Rightarrow> bool" where
  "isProcessRunning w pid = (wFindOk w pid \<and> wAlive w pid)"

definition IsRunning :: "world \<Rightarrow> State \<Rightarrow> bool" where
  "IsRunning w st = (stServerPID st \<noteq> 0 \<and> wFindOk w (stServerPID st) \<and> wAlive w (stServerPID st))"

text \<open>
  \<open>stopProcess\<close>: the select between the goroutine that waits for the process and the
  timer is decided by \<open>wWaitDone\<close>.
\<close>

definition stopProcess :: "world \<Rightarrow> int \<Rightarrow> bool \<Rightarrow> world" where
  "stopProcess w pid force =
     (if \<not> wFindOk w pid then w
      else if force then sendSignal w pid SIGKILL
      else let w1 = sendSignal w pid SIGTERM
           in if wWaitDone w pid then w1 else sendSignal w1 pid SIGKILL)"

definition startServerProcess :: "world \<Rightarrow> string list \<Rightarrow> int \<Rightarrow> string \<Rightarrow> string \<Rightarrow>
    (error + int) \<times> world" where
  "startServerProcess w paths port username password =
     (if \<not> wExeOk w then (Inl GetExecutableError, w)
      else if \<not> wLogOk w then (Inl CreateLogFileError, w)
      else case wStart w (ServerCmd paths port username password) of
             None \<Rightarrow> (Inl StartProcessError, w)
           | Some (pid, survives) \<Rightarrow>
               (Inr pid,
                w\<lparr> wTrace := wTrace w @ [Started (ServerCmd paths port username password)],
                   wServerPidFile := (if wPidWriteOk w then PidFile pid else wServerPidFile w),
                   wAlive := (wAlive w)(pid := survives) \<rparr>))"

text \<open>Package tunnel: \<open>Manager.GetRunningPID\<close> and \<open>Manager.Start\<close>.\<close>

definition GetRunningPID :: "world \<Rightarrow> int \<times> world" where
  "GetRunningPID w =
     (case wTunnelPidFile w of
        NoPidFile \<Rightarrow> (0, w)
      | BadPidFile \<Rightarrow> (0, w)
      | PidFile pid \<Rightarrow>
          if \<not> isProcessRunning w pid then (0, w\<lparr> wTunnelPidFile := NoPidFile \<rparr>)
          else (pid, w))"

definition Manager_Start :: "world \<Rightarrow> string \<Rightarrow> (error + int) \<times> world" where
  "Manager_Start w tunnelName =
     (if \<not> wLookPathOk w then (Inl CloudflaredNotFound, w)
      else let (running, w1) = GetRunningPID w
           in if running > 0 then (Inr running, w1)
              else if \<not> wLogOk w1 then (Inl CreateTunnelLogError, w1)
              else case wStart w1 (TunnelCmd tunnelName) of
                     None \<Rightarrow> (Inl StartCloudflaredError, w1)
                   | Some (pid, survives) \<Rightarrow>
                       let w2 = w1\<lparr> wTrace := wTrace w1 @ [Started (TunnelCmd tunnelName)],
                                     wAlive := (wAlive w1)(pid := True) \<rparr>
                       in if \<not> wPidWriteOk w2
                          then (Inl SaveTunnelPidError, sendSignal w2 pid SIGKILL)
                          else let w3 = w2\<lparr> wTunnelPidFile := PidFile pid,
                                             wAlive := (wAlive w2)(pid := survives) \<rparr>
                               in if \<not> isProcessRunning w3 pid
                                  then (Inl (ProcessDiedImmediately
                                               (wConfigDir w3 @ ''/tunnel.log'')), w3)
                                  else (Inr pid, w3))"

text \<open>\<open>State.Save\<close> on the state file of the world.\<close>

definition saveState :: "world \<Rightarrow> State \<Rightarrow> error option \<times> State \<times> world" where
  "saveState w st =
     (case Save (wDirOk w) (wWriteOk w) (wStateFile w) st of
        (err, st', f) \<Rightarrow> (err, st', w\<lparr> wStateFile := f \<rparr>))"

text \<open>
  A command ends with \<open>None\<close> when it runs to its end and with \<open>Some e\<close> when it
  reports \<open>e\<close> and calls \<open>os.Exit(1)\<close>.
\<close>

definition restartServer :: "world \<Rightarrow> State \<Rightarrow> error option \<times> world" where
  "restartServer w st =
     (let w1 = (if stServerPID st > 0 then stopProcess w (stServerPID st) False else w)
      in case startServerProcess w1 (map itPath (stItems st)) (stPort st)
                (stUsername st) (stPassword st) of
           (Inl e, w2) \<Rightarrow> (Some (RestartFailed e), w2)
         | (Inr serverPID, w2) \<Rightarrow>
             (case saveState w2 (st\<lparr> stServerPID := serverPID \<rparr>) of
                (err, st', w3) \<Rightarrow> (None, w3)))"

text \<open>
  The loop of \<open>cmdAdd\<close> over the new paths, \<open>existingNames\<close> being the names taken so
  far. The error of \<open>filepath.Abs\<close> is dropped by the source (the path is then empty),
  and so is the error of the second \<open>os.Stat\<close>, whose result is then \<open>nil\<close>.
\<close>

fun addLoop :: "filesys \<Rightarrow> string set \<Rightarrow> string list \<Rightarrow> error + ShareItem list" where
  "addLoop fs existingNames [] = Inr []"
| "addLoop fs existingNames (path # paths) =
     (case fsStat fs path of
        StatInfo d0 z0 t0 \<Rightarrow>
          (let absPath = (case Abs (fsCwd fs) path of None \<Rightarrow> [] | Some a \<Rightarrow> a);
               name = Base absPath
           in if name \<in> existingNames then Inl (NameExists name)
              else case fsStat fs absPath of
                     StatInfo isdir sz mt \<Rightarrow>
                       (case addLoop fs (insert name existingNames) paths of
                          Inl e \<Rightarrow> Inl e
                        | Inr newItems \<Rightarrow> Inr (mkItem absPath isdir sz # newItems))
                   | _ \<Rightarrow> Inl NilPointerPanic)
      | _ \<Rightarrow> Inl (PathNotFound path))"

definition cmdAdd :: "world \<Rightarrow> string list \<Rightarrow> error option \<times> world" where
  "cmdAdd w paths =
     (case Load (wStateFile w) of
        Inl e \<Rightarrow> (Some e, w)
      | Inr None \<Rightarrow> (Some NoActiveShare, w)
      | Inr (Some st) \<Rightarrow>
          if \<not> IsRunning w st then (Some NoActiveShare, w)
          else (case addLoop (wFs w) (itName ` set (stItems st)) paths of
                  Inl e \<Rightarrow> (Some e, w)
                | Inr newItems \<Rightarrow>
                    (case saveState w (st\<lparr> stItems := stItems st @ newItems,
                                           stIsMulti := length (stItems st @ newItems) > 1 \<rparr>) of
                       (Some e, st', w1) \<Rightarrow> (Some e, w1)
                     | (None, st', w1) \<Rightarrow> restartServer w1 st')))"

definition cmdRemove :: "world \<Rightarrow> string list \<Rightarrow> error option \<times> world" where
  "cmdRemove w names =
     (case Load (wStateFile w) of
        Inl e \<Rightarrow> (Some e, w)
      | Inr None \<Rightarrow> (Some NoActiveShare, w)
      | Inr (Some st) \<Rightarrow>
          if \<not> IsRunning w st then (Some NoActiveShare, w)
          else if length (stItems st) = 0 then (Some NoItems, w)
          else let remaining = filter (\<lambda>it. itName it \<notin> set names) (stItems st);
                   removed = map itName (filter (\<lambda>it. itName it \<in> set names) (stItems st))
               in if length removed = 0 then (Some ItemsNotFound, w)
                  else if length remaining = 0 then (Some CannotRemoveAll, w)
                  else let st1 = st\<lparr> stItems := remaining, stIsMulti := length remaining > 1 \<rparr>;
                           st2 = (if length remaining = 1
                                  then st1\<lparr> stPath := itPath (remaining ! 0),
                                            stShareType := itShareType (remaining ! 0) \<rparr>
                                  else st1)
                       in (case saveState w st2 of
                             (Some e, st', w1) \<Rightarrow> (Some e, w1)
                           | (None, st', w1) \<Rightarrow> restartServer w1 st'))"


section \<open>Notions used in the statements\<close>



text \<open>
  The key that \<open>fileLess\<close> compares by: directories (\<open>False\<close>) before files (\<open>True\<close>),
  then the name.
\<close>

definition fkey :: "FileInfo \<Rightarrow> bool \<times> string" where
  "fkey f = (\<not> fiIsDir f, fiName f)"


text \<open>
  All directories precede all files, and the names are in ascending order within the
  directories and within the files.
\<close>

definition dirsFirstSorted :: "FileInfo list \<Rightarrow> bool" where
  "dirsFirstSorted out =
     (out = filter fiIsDir out @ filter (\<lambda>f. \<not> fiIsDir f) out \<and>
      sorted (map fiName (filter fiIsDir out)) \<and>
      sorted (map fiName (filter (\<lambda>f. \<not> fiIsDir f) out)))"

text \<open>The display name that \<open>cmdAdd\<close> derives from a path.\<close>

definition displayName :: "filesys \<Rightarrow> string \<Rightarrow> string" where
  "displayName fs path = Base (case Abs (fsCwd fs) path of None \<Rightarrow> [] | Some a \<Rightarrow> a)"

text \<open>The item list that \<open>Load\<close> reads from the state file (empty when it reads no state).\<close>

definition persistedItems :: "world \<Rightarrow> ShareItem list" where
  "persistedItems w = (case Load (wStateFile w) of Inr (Some st) \<Rightarrow> stItems st | _ \<Rightarrow> [])"


subsection \<open>Example values\<close>

definition exampleFs :: filesys where
  "exampleFs =
     \<lparr> fsStat = (\<lambda>p. if p = ''/tmp/a.txt'' \<or> p = ''/home/a.txt'' \<or> p = ''/tmp/b.txt''
                     then StatInfo False 12 5
                     else if p = ''/tmp/dir'' then StatInfo True 4096 6
                     else StatNotExist),
       fsEvalSymlinks = (\<lambda>p. Some p),
       fsReadDir = (\<lambda>p. if p = ''/tmp/dir''
                        then Some [DirEntry ''x'' False (Some (3, 7)),
                                   DirEntry ''Sub'' True (Some (0, 8)),
                                   DirEntry ''a'' False (Some (1, 1))]
                        else None),
       fsCwd = Some ''/tmp'',
       fsNow = 99 \<rparr>"

definition exampleFile :: ShareItem where
  "exampleFile = \<lparr> itPath = ''/tmp/a.txt'', itName = ''a.txt'', itShareType = ''file'', itSize = 12 \<rparr>"

definition exampleDir :: ShareItem where
  "exampleDir = \<lparr> itPath = ''/tmp/dir'', itName = ''dir'', itShareType = ''dir'', itSize = 0 \<rparr>"


definition exampleState :: State where
  "exampleState =
     zeroState\<lparr> stShareID := ''test123'', stMode := ''protected'', stPort := 8787,
       stItems := [exampleFile, exampleDir], stIsMulti := True, stServerPID := 100,
       stTunnelPID := 200, stUsername := ''dl'', stPassword := ''pw'',
       stPublicURL := ''https://share.example.com'' \<rparr>"


text \<open>
  A machine on which the share of \<open>exampleState\<close> runs (server 100, tunnel 200) and on
  which a child that is started exits before the settling delay is over.
\<close>

definition exampleWorld :: world where
  "exampleWorld =
     \<lparr> wStateFile = Bytes (Doc (marshalState exampleState)), wDirOk = True, wWriteOk = True,
       wFs = exampleFs, wConfigDir = ''/home/u/.cfshare'',
       wFindOk = (\<lambda>p. True), wAlive = (\<lambda>p. p = 100 \<or> p = 200),
       wExitsOnTerm = (\<lambda>p. True), wWaitDone = (\<lambda>p. True),
       wExeOk = True, wLogOk = True, wLookPathOk = True,
       wStart = (\<lambda>c. Some (4242, False)), wPidWriteOk = True,
       wServerPidFile = PidFile 100, wTunnelPidFile = NoPidFile, wTrace = [] \<rparr>"




section \<open>The virtual namespace\<close>

lemma loop_preserves: "buildItemMapLoop m its = Inr m' \<Longrightarrow> m k = Some v \<Longrightarrow> m' k = Some v"
proof (induction its arbitrary: m)
  case Nil
  then show ?case by simp
next
  case (Cons a its)
  from Cons.prems(1) have n: "m (itName a) = None"
    and r: "buildItemMapLoop (m(itName a \<mapsto> a)) its = Inr m'"
    by (auto split: option.splits)
  from n Cons.prems(2) have "(m(itName a \<mapsto> a)) k = Some v" by auto
  from Cons.IH[OF r this] show ?case .
qed

lemma loop_lookup:
  "buildItemMapLoop m its = Inr m' \<Longrightarrow> it \<in> set its \<Longrightarrow> m' (itName it) = Some it"
  by (induction its arbitrary: m) (auto split: option.splits dest: loop_preserves)

lemma loop_dom: "buildItemMapLoop m its = Inr m' \<Longrightarrow> dom m' = dom m \<union> itName ` set its"
  by (induction its arbitrary: m) (auto split: option.splits)

lemma loop_ok_iff:
  "(\<exists>m'. buildItemMapLoop m its = Inr m') \<longleftrightarrow>
     distinct (map itName its) \<and> itName ` set its \<inter> dom m = {}"
  by (induction its arbitrary: m) (auto split: option.splits)

lemma loop_err:
  "buildItemMapLoop m its = Inl e \<Longrightarrow>
     \<exists>n. e = NameConflict n \<and> n \<in> itName ` set its \<and>
         (n \<in> dom m \<or> 1 < length (filter (\<lambda>it. itName it = n) its))"
proof (induction its arbitrary: m)
  case Nil
  then show ?case by simp
next
  case (Cons a its)
  show ?case
  proof (cases "m (itName a)")
    case (Some v)
    with Cons.prems show ?thesis by auto
  next
    case None
    with Cons.prems have "buildItemMapLoop (m(itName a \<mapsto> a)) its = Inl e" by simp
    from Cons.IH[OF this] obtain n where n: "e = NameConflict n" "n \<in> itName ` set its"
      "n \<in> dom (m(itName a \<mapsto> a)) \<or> 1 < length (filter (\<lambda>it. itName it = n) its)"
      by blast
    from n(2) have pos: "0 < length (filter (\<lambda>it. itName it = n) its)"
      by (auto simp: filter_empty_conv)
    from n(3) pos have "n \<in> dom m \<or> 1 < length (filter (\<lambda>it. itName it = n) (a # its))"
      by auto
    with n(1,2) show ?thesis by auto
  qed
qed

lemma buildItemMap_cases: "(\<exists>m. buildItemMap its = Inr m) \<or> (\<exists>e. buildItemMap its = Inl e)"
  by (cases "buildItemMap its") auto

text \<open>
  Claim C2. Building the name-to-item map from an ordered list of share items succeeds
  exactly when the display names of the list are pairwise distinct. When it succeeds,
  every item is found in the map under its name, and the map has no other keys. When
  two items carry the same name, \<open>buildItemMap\<close> returns a name-conflict error for a
  name that occurs more than once and no map (the result is the error alone), and
  \<open>NewServer\<close> returns that error instead of a server, whatever the paths are.
\<close>

theorem buildItemMap_iff_distinct_names:
  "((\<exists>m. buildItemMap its = Inr m) \<longleftrightarrow> distinct (map itName its)) \<and>
   (\<forall>m. buildItemMap its = Inr m \<longrightarrow>
      (\<forall>it \<in> set its. m (itName it) = Some it) \<and> dom m = itName ` set its) \<and>
   (\<not> distinct (map itName its) \<longrightarrow>
      (\<exists>n. buildItemMap its = Inl (NameConflict n) \<and>
           1 < length (filter (\<lambda>it. itName it = n) its))) \<and>
   (\<forall>fs paths st. statItems fs paths = Inr its \<and> \<not> distinct (map itName its) \<longrightarrow>
      (\<exists>n. NewServer fs paths st = Inl (NameConflict n)))"
proof -
  have a: "(\<exists>m. buildItemMap its = Inr m) \<longleftrightarrow> distinct (map itName its)"
    using loop_ok_iff[of Map.empty its] by (simp add: buildItemMap_def)
  have b: "\<forall>m. buildItemMap its = Inr m \<longrightarrow>
      (\<forall>it \<in> set its. m (itName it) = Some it) \<and> dom m = itName ` set its"
    using loop_lookup[of Map.empty its] loop_dom[of Map.empty its]
    by (auto simp: buildItemMap_def)
  have c: "\<exists>n. buildItemMap its = Inl (NameConflict n) \<and>
           1 < length (filter (\<lambda>it. itName it = n) its)"
    if nd: "\<not> distinct (map itName its)"
  proof -
    from a nd obtain e where e: "buildItemMap its = Inl e"
      using buildItemMap_cases[of its] by auto
    then have "buildItemMapLoop Map.empty its = Inl e" by (simp add: buildItemMap_def)
    from loop_err[OF this] e show ?thesis by auto
  qed
  have d: "\<exists>n. NewServer fs paths st = Inl (NameConflict n)"
    if "statItems fs paths = Inr its" "\<not> distinct (map itName its)" for fs paths st
  proof -
    from c[OF that(2)] obtain n where n: "buildItemMap its = Inl (NameConflict n)" by blast
    from that have "paths \<noteq> []" by (cases paths) auto
    with that(1) n show ?thesis by (simp add: NewServer_def)
  qed
  from a b c d show ?thesis by blast
qed

theorem buildItemMap_iff_distinct_names_witness:
  "(\<exists>m. buildItemMap
          [\<lparr> itPath = ''/tmp/a.txt'', itName = ''a.txt'', itShareType = ''file'', itSize = 12 \<rparr>,
           \<lparr> itPath = ''/tmp/dir'', itName = ''dir'', itShareType = ''dir'', itSize = 0 \<rparr>] = Inr m \<and>
        m ''dir'' = Some \<lparr> itPath = ''/tmp/dir'', itName = ''dir'', itShareType = ''dir'', itSize = 0 \<rparr>) \<and>
   buildItemMap
     [\<lparr> itPath = ''/tmp/a.txt'', itName = ''a.txt'', itShareType = ''file'', itSize = 12 \<rparr>,
      \<lparr> itPath = ''/home/a.txt'', itName = ''a.txt'', itShareType = ''file'', itSize = 3 \<rparr>]
     = Inl (NameConflict ''a.txt'')"
  using buildItemMap_iff_distinct_names
     [of "[\<lparr> itPath = ''/tmp/a.txt'', itName = ''a.txt'', itShareType = ''file'', itSize = 12 \<rparr>,
           \<lparr> itPath = ''/tmp/dir'', itName = ''dir'', itShareType = ''dir'', itSize = 0 \<rparr>]"]
    buildItemMap_iff_distinct_names
     [of "[\<lparr> itPath = ''/tmp/a.txt'', itName = ''a.txt'', itShareType = ''file'', itSize = 12 \<rparr>,
      \<lparr> itPath = ''/home/a.txt'', itName = ''a.txt'', itShareType = ''file'', itSize = 3 \<rparr>]"]
  by (auto split: if_splits)

section \<open>The state file\<close>

lemma decAll_map: "(\<And>x. d (f x) = Some x) \<Longrightarrow> decAll d (map f xs) = Some xs"
  by (induction xs) auto

lemma unmarshal_marshal_item: "unmarshalItem (marshalItem it) = Some it"
  by (simp add: marshalItem_def member_def)

lemma unmarshal_marshal_record: "unmarshalRecord (marshalRecord r) = Some r"
  by (simp add: marshalRecord_def member_def)

lemma unmarshal_marshal_state: "unmarshalState (marshalState s) = Some s"
  apply (cases "stItems s"; cases "stRecentAccess s")
  apply (simp_all add: marshalState_def member_def omitempty_def decAll_map unmarshal_marshal_item unmarshal_marshal_record)
  done

lemma Load_marshal:
  "stItems s \<noteq> [] \<or> stPath s = [] \<Longrightarrow> Load (Bytes (Doc (marshalState s))) = Inr (Some s)"
  by (auto simp: Load_def unmarshal_marshal_state)

lemma syncLegacy_fields:
  "stItems (syncLegacy s) = stItems s" "stMode (syncLegacy s) = stMode s"
  "stUsername (syncLegacy s) = stUsername s" "stPassword (syncLegacy s) = stPassword s"
  "stItems s \<noteq> [] \<Longrightarrow> stIsMulti (syncLegacy s) = (1 < length (stItems s))"
  by (auto simp: syncLegacy_def Suc_lessI)





section \<open>Directory listings\<close>

lemma fileLess_key: "fileLess a b \<longleftrightarrow> fkey a < fkey b"
  by (auto simp: fileLess_def fkey_def less_prod_def)

lemma mset_insertSorted: "mset (insertSorted lt x ys) = add_mset x (mset ys)"
  by (induction ys) auto

lemma mset_foldl_insert: "mset (foldl (\<lambda>done x. insertSorted lt x done) acc xs) = mset acc + mset xs"
  by (induction xs arbitrary: acc) (auto simp: mset_insertSorted)

lemma mset_sortSlice: "mset (sortSlice lt xs) = mset xs"
  by (simp add: sortSlice_def mset_foldl_insert)

lemma set_insertSorted: "set (insertSorted lt x ys) = insert x (set ys)"
  by (induction ys) auto

lemma sorted_insertSorted: "sorted (map fkey ys) \<Longrightarrow> sorted (map fkey (insertSorted fileLess x ys))"
  by (induction ys) (auto simp: fileLess_key set_insertSorted)

lemma sorted_foldl_insert: "sorted (map fkey acc) \<Longrightarrow> sorted (map fkey (foldl (\<lambda>done x. insertSorted fileLess x done) acc xs))"
  by (induction xs arbitrary: acc) (auto simp: sorted_insertSorted)

lemma sorted_sortSlice: "sorted (map fkey (sortSlice fileLess xs))"
  by (simp add: sortSlice_def sorted_foldl_insert)

lemma keys_sortSlice: "map fkey (sortSlice fileLess xs) = sort (map fkey xs)"
  by (rule properties_for_sort[symmetric]) (simp_all add: sorted_sortSlice mset_sortSlice)

lemma dirs_first: "sorted (map fkey out) \<Longrightarrow> filter fiIsDir out @ filter (\<lambda>f. \<not> fiIsDir f) out = out"
  by (induction out) (auto simp: fkey_def less_eq_prod_def)

lemma names_sorted: "sorted (map fkey out) \<Longrightarrow> sorted (map fiName (filter (\<lambda>f. fiIsDir f = b) out))"
  by (induction out) (auto simp: fkey_def less_eq_prod_def)







text \<open>
  The two properties below hold of any output that meets the contract of \<open>sort.Slice\<close>
  (the same elements, no element less than one before it), so they do not depend on
  the sorting algorithm that the model runs.
\<close>

lemma sortSlice_contract:
  assumes "mset out = mset files" and "sorted_wrt (\<lambda>a b. \<not> fileLess b a) out"
  shows "dirsFirstSorted out \<and> map fkey out = map fkey (sortSlice fileLess files)"
proof -
  from assms(2) have s: "sorted (map fkey out)"
    by (simp add: fileLess_key sorted_map not_less)
  have "dirsFirstSorted out"
    using names_sorted[OF s, of True] names_sorted[OF s, of False] dirs_first[OF s]
    by (simp add: dirsFirstSorted_def)
  moreover have "sort (map fkey files) = map fkey out"
    using assms(1) s by (intro properties_for_sort) simp_all
  ultimately show ?thesis by (simp add: keys_sortSlice)
qed



section \<open>The security boundary\<close>




















section \<open>Adding and removing items\<close>

lemma addLoop_conflict:
  "p \<in> set paths \<Longrightarrow> displayName fs p \<in> existing \<Longrightarrow> \<exists>e. addLoop fs existing paths = Inl e"
proof (induction paths arbitrary: existing)
  case Nil
  then show ?case by simp
next
  case (Cons q paths)
  show ?case
  proof (cases "p = q")
    case True
    with Cons.prems(2) show ?thesis
      by (auto simp: displayName_def Let_def split: statres.splits)
  next
    case False
    with Cons.prems have "p \<in> set paths" by simp
    from Cons.IH[OF this, of "insert (displayName fs q) existing"] Cons.prems(2)
    obtain e where "addLoop fs (insert (displayName fs q) existing) paths = Inl e" by auto
    then show ?thesis
      by (auto simp: displayName_def Let_def split: statres.splits)
  qed
qed

text \<open>
  Claim C6. On a running share, an add operation with a path whose display name is
  already the name of an item of the current state fails, and leaves the machine as it
  was: the state file is unchanged, no signal is sent and no process is started, so the
  running server goes on with the original items. When that path is the only one and
  exists, the error is the name conflict.
\<close>

theorem add_name_conflict_changes_nothing:
  assumes "Load (wStateFile w) = Inr (Some st)" and "IsRunning w st"
    and "p \<in> set paths" and "displayName (wFs w) p \<in> itName ` set (stItems st)"
  shows "\<exists>e w'. cmdAdd w paths = (Some e, w') \<and> w' = w \<and>
           wStateFile w' = wStateFile w \<and> wTrace w' = wTrace w \<and> wAlive w' = wAlive w \<and>
           (paths = [p] \<and> fsStat (wFs w) p \<noteq> StatNotExist \<and> fsStat (wFs w) p \<noteq> StatError
              \<longrightarrow> e = NameExists (displayName (wFs w) p))"
proof -
  from addLoop_conflict[OF assms(3,4)] obtain e
    where e: "addLoop (wFs w) (itName ` set (stItems st)) paths = Inl e" by blast
  have "e = NameExists (displayName (wFs w) p)"
    if "paths = [p]" "fsStat (wFs w) p \<noteq> StatNotExist" "fsStat (wFs w) p \<noteq> StatError"
    using e that assms(4)
    by (cases "fsStat (wFs w) p") (auto simp: displayName_def Let_def)
  with e assms(1,2) show ?thesis by (simp add: cmdAdd_def)
qed

theorem add_name_conflict_changes_nothing_witness:
  "Load (wStateFile exampleWorld) = Inr (Some exampleState) \<and>
   IsRunning exampleWorld exampleState \<and>
   displayName (wFs exampleWorld) ''/home/a.txt'' \<in> itName ` set (stItems exampleState) \<and>
   cmdAdd exampleWorld [''/home/a.txt''] = (Some (NameExists ''a.txt''), exampleWorld)"
proof -
  have ne: "stItems exampleState \<noteq> [] \<or> stPath exampleState = []"
    by (simp add: exampleState_def zeroState_def)
  have h1: "Load (wStateFile exampleWorld) = Inr (Some exampleState)"
    using Load_marshal[OF ne] by (simp add: exampleWorld_def)
  have h2: "IsRunning exampleWorld exampleState"
    by (simp add: IsRunning_def exampleWorld_def exampleState_def zeroState_def)
  have n: "displayName (wFs exampleWorld) ''/home/a.txt'' = ''a.txt''"
    by (simp add: displayName_def exampleWorld_def exampleFs_def Abs_def HasPrefix_def
          Clean_def Base_def)
  have h4: "displayName (wFs exampleWorld) ''/home/a.txt'' \<in> itName ` set (stItems exampleState)"
    unfolding n by (simp add: exampleState_def zeroState_def exampleFile_def)
  have st: "fsStat (wFs exampleWorld) ''/home/a.txt'' = StatInfo False 12 5"
    by (simp add: exampleWorld_def exampleFs_def)
  from add_name_conflict_changes_nothing[OF h1 h2 _ h4, of "[''/home/a.txt'']"] h1 h2 h4 n st
  show ?thesis by auto
qed

lemma saveState_cases:
  assumes "saveState w st = (err, st', w')" and "stItems st \<noteq> []"
  shows "stItems st' = stItems st \<or> st' = st"
    and "err = None \<Longrightarrow> persistedItems w' = stItems st \<and> stItems st' = stItems st"
    and "err \<noteq> None \<Longrightarrow> w' = w"
proof -
  show "stItems st' = stItems st \<or> st' = st"
    using assms by (auto simp: saveState_def Save_def Let_def syncLegacy_fields split: if_splits)
  show "persistedItems w' = stItems st \<and> stItems st' = stItems st" if "err = None"
  proof -
    from assms that have st': "st' = syncLegacy st"
      and w': "wStateFile w' = Bytes (Doc (marshalState (syncLegacy st)))"
      by (auto simp: saveState_def Save_def Let_def split: if_splits)
    have "Load (Bytes (Doc (marshalState (syncLegacy st)))) = Inr (Some (syncLegacy st))"
      using assms(2) by (intro Load_marshal) (simp add: syncLegacy_fields)
    then show ?thesis by (simp add: persistedItems_def w' st' syncLegacy_fields)
  qed
  show "w' = w" if "err \<noteq> None"
    using assms that by (auto simp: saveState_def Save_def Let_def split: if_splits)
qed

lemma stopProcess_stateFile: "wStateFile (stopProcess w pid force) = wStateFile w"
  by (simp add: stopProcess_def sendSignal_def Let_def)

lemma startServerProcess_stateFile:
  "wStateFile (snd (startServerProcess w paths port u pw)) = wStateFile w"
  by (auto simp: startServerProcess_def split: option.splits)

lemma persistedItems_cong: "wStateFile w' = wStateFile w \<Longrightarrow> persistedItems w' = persistedItems w"
  by (simp add: persistedItems_def)

lemma restartServer_items:
  assumes "persistedItems w \<noteq> []" and "stItems st \<noteq> []"
  shows "persistedItems (snd (restartServer w st)) \<noteq> []"
proof -
  define w1 where "w1 = (if stServerPID st > 0 then stopProcess w (stServerPID st) False else w)"
  define r where "r = startServerProcess w1 (map itPath (stItems st)) (stPort st)
                (stUsername st) (stPassword st)"
  have f1: "wStateFile w1 = wStateFile w" by (simp add: w1_def stopProcess_stateFile)
  have f2: "wStateFile (snd r) = wStateFile w"
    unfolding r_def using startServerProcess_stateFile f1 by simp
  then have p2: "persistedItems (snd r) \<noteq> []" using assms(1) persistedItems_cong by metis
  show ?thesis
  proof (cases "fst r")
    case (Inl e)
    then have "restartServer w st = (Some (RestartFailed e), snd r)"
      by (cases r) (simp add: restartServer_def Let_def w1_def[symmetric] r_def[symmetric])
    with p2 show ?thesis by simp
  next
    case (Inr pid)
    obtain err st' w3 where s: "saveState (snd r) (st\<lparr> stServerPID := pid \<rparr>) = (err, st', w3)"
      by (cases "saveState (snd r) (st\<lparr> stServerPID := pid \<rparr>)") auto
    from Inr s have rs: "restartServer w st = (None, w3)"
      by (cases r) (simp add: restartServer_def Let_def w1_def[symmetric] r_def[symmetric])
    have ne: "stItems (st\<lparr> stServerPID := pid \<rparr>) \<noteq> []" using assms(2) by simp
    have "persistedItems w3 \<noteq> []"
    proof (cases err)
      case None
      with saveState_cases(2)[OF s ne] ne show ?thesis by simp
    next
      case (Some e)
      with saveState_cases(3)[OF s ne] p2 show ?thesis by simp
    qed
    with rs show ?thesis by simp
  qed
qed

lemma after_save_restart:
  assumes "persistedItems w \<noteq> []" and "stItems st \<noteq> []"
  shows "persistedItems (snd (case saveState w st of
            (Some e, st', w1) \<Rightarrow> (Some e, w1)
          | (None, st', w1) \<Rightarrow> restartServer w1 st')) \<noteq> []"
proof -
  obtain err st' w1 where s: "saveState w st = (err, st', w1)"
    by (cases "saveState w st") auto
  show ?thesis
  proof (cases err)
    case None
    from saveState_cases(2)[OF s assms(2) None] assms(2)
    have "persistedItems w1 \<noteq> []" "stItems st' \<noteq> []" by simp_all
    from restartServer_items[OF this] s None show ?thesis by simp
  next
    case (Some e)
    with saveState_cases(3)[OF s assms(2)] assms(1) s show ?thesis by simp
  qed
qed

lemma cmdAdd_items:
  assumes "persistedItems w \<noteq> []"
  shows "persistedItems (snd (cmdAdd w paths)) \<noteq> []"
proof (cases "Load (wStateFile w)")
  case (Inl e)
  with assms show ?thesis by (simp add: cmdAdd_def)
next
  case (Inr ost)
  show ?thesis
  proof (cases ost)
    case None
    with Inr assms show ?thesis by (simp add: cmdAdd_def)
  next
    case (Some st)
    with Inr assms have ne: "stItems st \<noteq> []" by (simp add: persistedItems_def)
    show ?thesis
    proof (cases "IsRunning w st")
      case False
      with Inr Some assms show ?thesis by (simp add: cmdAdd_def)
    next
      case True
      show ?thesis
      proof (cases "addLoop (wFs w) (itName ` set (stItems st)) paths")
        case (Inl e)
        with Inr Some True assms show ?thesis by (simp add: cmdAdd_def)
      next
        case new: (Inr newItems)
        have "stItems (st\<lparr> stItems := stItems st @ newItems,
                 stIsMulti := length (stItems st @ newItems) > 1 \<rparr>) \<noteq> []"
          using ne by simp
        from after_save_restart[OF assms this] Inr Some True new show ?thesis
          by (simp add: cmdAdd_def)
      qed
    qed
  qed
qed

lemma cmdRemove_items:
  assumes "persistedItems w \<noteq> []"
  shows "persistedItems (snd (cmdRemove w names)) \<noteq> []"
proof (cases "Load (wStateFile w)")
  case (Inl e)
  with assms show ?thesis by (simp add: cmdRemove_def)
next
  case (Inr ost)
  show ?thesis
  proof (cases ost)
    case None
    with Inr assms show ?thesis by (simp add: cmdRemove_def)
  next
    case (Some st)
    define remaining where "remaining = filter (\<lambda>it. itName it \<notin> set names) (stItems st)"
    define st2 where "st2 = (if length remaining = 1
         then st\<lparr> stItems := remaining, stIsMulti := length remaining > 1,
                  stPath := itPath (remaining ! 0), stShareType := itShareType (remaining ! 0) \<rparr>
         else st\<lparr> stItems := remaining, stIsMulti := length remaining > 1 \<rparr>)"
    show ?thesis
    proof (cases "IsRunning w st \<and> stItems st \<noteq> [] \<and>
        filter (\<lambda>it. itName it \<in> set names) (stItems st) \<noteq> [] \<and> remaining \<noteq> []")
      case False
      with Inr Some assms show ?thesis
        by (auto simp: cmdRemove_def Let_def remaining_def)
    next
      case True
      then have ne: "stItems st2 \<noteq> []" by (simp add: st2_def)
      have eq: "cmdRemove w names = (case saveState w st2 of
            (Some e, st', w1) \<Rightarrow> (Some e, w1)
          | (None, st', w1) \<Rightarrow> restartServer w1 st')"
        using Inr Some True
        by (simp add: cmdRemove_def Let_def remaining_def[symmetric] st2_def)
      show ?thesis unfolding eq by (rule after_save_restart[OF assms ne])
    qed
  qed
qed

lemma addLoop_length: "addLoop fs ex paths = Inr its \<Longrightarrow> length its = length paths"
  by (induction paths arbitrary: ex its)
     (auto simp: Let_def split: statres.splits if_splits sum.splits)

lemma save_restart_success:
  assumes "stItems st \<noteq> []"
    and "fst (case saveState w st of
            (Some e, st', w1) \<Rightarrow> (Some e, w1)
          | (None, st', w1) \<Rightarrow> restartServer w1 st') = None"
  shows "persistedItems (snd (case saveState w st of
            (Some e, st', w1) \<Rightarrow> (Some e, w1)
          | (None, st', w1) \<Rightarrow> restartServer w1 st')) \<noteq> []"
proof -
  obtain err st' w1 where s: "saveState w st = (err, st', w1)"
    by (cases "saveState w st") auto
  with assms(2) have None: "err = None" by (cases err) auto
  from saveState_cases(2)[OF s assms(1) None] assms(1)
  have "persistedItems w1 \<noteq> []" "stItems st' \<noteq> []" by simp_all
  from restartServer_items[OF this] s None show ?thesis by simp
qed

lemma cmdRemove_success_items:
  assumes "fst (cmdRemove w names) = None"
  shows "persistedItems (snd (cmdRemove w names)) \<noteq> []"
proof (cases "Load (wStateFile w)")
  case (Inl e)
  with assms show ?thesis by (simp add: cmdRemove_def)
next
  case (Inr ost)
  show ?thesis
  proof (cases ost)
    case None
    with Inr assms show ?thesis by (simp add: cmdRemove_def)
  next
    case (Some st)
    define remaining where "remaining = filter (\<lambda>it. itName it \<notin> set names) (stItems st)"
    define st2 where "st2 = (if length remaining = 1
         then st\<lparr> stItems := remaining, stIsMulti := length remaining > 1,
                  stPath := itPath (remaining ! 0), stShareType := itShareType (remaining ! 0) \<rparr>
         else st\<lparr> stItems := remaining, stIsMulti := length remaining > 1 \<rparr>)"
    show ?thesis
    proof (cases "IsRunning w st \<and> stItems st \<noteq> [] \<and>
        filter (\<lambda>it. itName it \<in> set names) (stItems st) \<noteq> [] \<and> remaining \<noteq> []")
      case False
      with Inr Some assms show ?thesis
        by (auto simp: cmdRemove_def Let_def remaining_def split: if_splits)
    next
      case True
      then have ne: "stItems st2 \<noteq> []" by (simp add: st2_def)
      have eq: "cmdRemove w names = (case saveState w st2 of
            (Some e, st', w1) \<Rightarrow> (Some e, w1)
          | (None, st', w1) \<Rightarrow> restartServer w1 st')"
        using Inr Some True
        by (simp add: cmdRemove_def Let_def remaining_def[symmetric] st2_def)
      show ?thesis using assms unfolding eq by (rule save_restart_success[OF ne])
    qed
  qed
qed

lemma cmdAdd_success_items:
  assumes "fst (cmdAdd w paths) = None" and "paths \<noteq> []"
  shows "persistedItems (snd (cmdAdd w paths)) \<noteq> []"
proof (cases "Load (wStateFile w)")
  case (Inl e)
  with assms show ?thesis by (simp add: cmdAdd_def)
next
  case (Inr ost)
  show ?thesis
  proof (cases ost)
    case None
    with Inr assms show ?thesis by (simp add: cmdAdd_def)
  next
    case (Some st)
    show ?thesis
    proof (cases "IsRunning w st")
      case False
      with Inr Some assms show ?thesis by (simp add: cmdAdd_def)
    next
      case True
      show ?thesis
      proof (cases "addLoop (wFs w) (itName ` set (stItems st)) paths")
        case (Inl e)
        with Inr Some True assms show ?thesis by (simp add: cmdAdd_def)
      next
        case new: (Inr newItems)
        from addLoop_length[OF new] assms(2) have "newItems \<noteq> []" by auto
        then have ne: "stItems (st\<lparr> stItems := stItems st @ newItems,
                 stIsMulti := length (stItems st @ newItems) > 1 \<rparr>) \<noteq> []"
          by simp
        have eq: "cmdAdd w paths = (case saveState w (st\<lparr> stItems := stItems st @ newItems,
                 stIsMulti := length (stItems st @ newItems) > 1 \<rparr>) of
            (Some e, st', w1) \<Rightarrow> (Some e, w1)
          | (None, st', w1) \<Rightarrow> restartServer w1 st')"
          using Inr Some True new by (simp add: cmdAdd_def)
        show ?thesis using assms(1) unfolding eq by (rule save_restart_success[OF ne])
      qed
    qed
  qed
qed

text \<open>
  Claim C10. On a running share, a remove operation that would leave no item fails and
  leaves the machine as it was (state file unchanged, nothing stopped or started).
  Hence the persisted item list is not empty after an add or a remove operation: after
  a remove that runs to its end, after an add of at least one path that runs to its
  end, and, however the operation ends, whenever the list was not empty before it.
\<close>

theorem remove_never_empties_share:
  "(Load (wStateFile w) = Inr (Some st) \<and> IsRunning w st \<and>
      filter (\<lambda>it. itName it \<notin> set names) (stItems st) = []
    \<longrightarrow> (\<exists>e. cmdRemove w names = (Some e, w))) \<and>
   (fst (cmdRemove w names) = None \<longrightarrow> persistedItems (snd (cmdRemove w names)) \<noteq> []) \<and>
   (fst (cmdAdd w paths) = None \<and> paths \<noteq> []
    \<longrightarrow> persistedItems (snd (cmdAdd w paths)) \<noteq> []) \<and>
   (persistedItems w \<noteq> []
    \<longrightarrow> persistedItems (snd (cmdRemove w names)) \<noteq> [] \<and>
        persistedItems (snd (cmdAdd w paths)) \<noteq> [])"
proof -
  have "\<exists>e. cmdRemove w names = (Some e, w)"
    if "Load (wStateFile w) = Inr (Some st)" "IsRunning w st"
       "filter (\<lambda>it. itName it \<notin> set names) (stItems st) = []"
    using that by (simp add: cmdRemove_def Let_def)
  then show ?thesis
    using cmdRemove_items cmdAdd_items cmdRemove_success_items cmdAdd_success_items
    by blast
qed

theorem remove_never_empties_share_witness:
  "Load (wStateFile exampleWorld) = Inr (Some exampleState) \<and>
   IsRunning exampleWorld exampleState \<and>
   (\<exists>e. cmdRemove exampleWorld [''a.txt'', ''dir''] = (Some e, exampleWorld)) \<and>
   persistedItems exampleWorld \<noteq> [] \<and>
   persistedItems (snd (cmdRemove exampleWorld [''a.txt''])) \<noteq> [] \<and>
   persistedItems (snd (cmdAdd exampleWorld [''/tmp/b.txt''])) \<noteq> []"
proof -
  have ne: "stItems exampleState \<noteq> [] \<or> stPath exampleState = []"
    by (simp add: exampleState_def zeroState_def)
  have h1: "Load (wStateFile exampleWorld) = Inr (Some exampleState)"
    using Load_marshal[OF ne] by (simp add: exampleWorld_def)
  have h2: "IsRunning exampleWorld exampleState"
    by (simp add: IsRunning_def exampleWorld_def exampleState_def zeroState_def)
  have h3: "filter (\<lambda>it. itName it \<notin> set [''a.txt'', ''dir'']) (stItems exampleState) = []"
    by (simp add: exampleState_def zeroState_def exampleFile_def exampleDir_def)
  have h4: "persistedItems exampleWorld \<noteq> []"
    by (simp add: persistedItems_def h1 exampleState_def zeroState_def)
  from remove_never_empties_share[of exampleWorld exampleState "[''a.txt'', ''dir'']" "[''/tmp/b.txt'']"]
    remove_never_empties_share[of exampleWorld exampleState "[''a.txt'']" "[''/tmp/b.txt'']"]
    h1 h2 h3 h4
  show ?thesis by blast
qed

section \<open>Access records\<close>




section \<open>Starting child processes\<close>

text \<open>
  \<open>startServerProcess\<close> returns the child's pid whether or not the child is still
  alive after the settling delay; \<open>Manager.Start\<close> looks, and reports a child that has
  exited.
\<close>

lemma startServerProcess_ignores_exit:
  "wExeOk w \<Longrightarrow> wLogOk w \<Longrightarrow>
   wStart w (ServerCmd paths port username password) = Some (pid, survives) \<Longrightarrow>
   fst (startServerProcess w paths port username password) = Inr pid"
  by (simp add: startServerProcess_def)

lemma Manager_Start_reports_exit:
  "wLookPathOk w \<Longrightarrow> wTunnelPidFile w = NoPidFile \<Longrightarrow> wLogOk w \<Longrightarrow> wPidWriteOk w \<Longrightarrow>
   wStart w (TunnelCmd tunnelName) = Some (pid, False) \<Longrightarrow>
   fst (Manager_Start w tunnelName)
     = Inl (ProcessDiedImmediately (wConfigDir w @ ''/tunnel.log''))"
  by (simp add: Manager_Start_def GetRunningPID_def isProcessRunning_def Let_def)


end
